theory Spec2Isabelle
  imports Main "HOL-Library.Sublist"
begin

section \<open>The notebooks-table generator: data model\<close>

text \<open>
  The embedding follows \<^verbatim>\<open>automation/autogenerate_notebooks_table.py\<close>.
  A Python \<^verbatim>\<open>str\<close> is a HOL \<^typ>\<open>string\<close>; its characters are read as the code points
  below 256. A raised exception is a value of type \<open>error\<close> on the left of a sum.
\<close>

datatype error =
  Exception string
  | ValueError string
  | FormatError
  | FileNotFoundError string

text \<open>
  \<open>Exception m\<close> is \<^verbatim>\<open>raise Exception(m)\<close> with the message \<open>m\<close>.
  \<open>ValueError v\<close> is the error of the \<^verbatim>\<open>Enum\<close> lookup, carrying the value \<open>v\<close>
  that is no member. \<open>FormatError\<close> is \<^verbatim>\<open>str.format\<close> failing on its template or its
  arguments. \<open>FileNotFoundError p\<close> is \<^verbatim>\<open>open(p)\<close> on a path that does not exist.
\<close>

definition and_then :: "error + 'a \<Rightarrow> ('a \<Rightarrow> error + 'b) \<Rightarrow> error + 'b" where
  "and_then r f = (case r of Inl e \<Rightarrow> Inl e | Inr x \<Rightarrow> f x)"

text \<open>A list comprehension whose element expression may raise: the first error wins.\<close>

fun for_each :: "('a \<Rightarrow> error + 'b) \<Rightarrow> 'a list \<Rightarrow> error + 'b list" where
  "for_each f [] = Inr []"
| "for_each f (x # xs) =
     and_then (f x) (\<lambda>y. and_then (for_each f xs) (\<lambda>ys. Inr (y # ys)))"

subsection \<open>Constants\<close>

definition NOTEBOOKS_ROOT_PATH :: string where
  "NOTEBOOKS_ROOT_PATH = ''https://github.com/roboflow-ai/notebooks/blob/main/notebooks''"

definition NOTEBOOKS_COLAB_ROOT_PATH :: string where
  "NOTEBOOKS_COLAB_ROOT_PATH = ''github/roboflow-ai/notebooks/blob/main/notebooks''"

definition WARNING_HEADER :: "string list" where
  "WARNING_HEADER =
    [''<!---'',
     ''   WARNING: DO NOT EDIT THIS TABLE MANUALLY. IT IS AUTOMATICALLY GENERATED.'',
     ''   HEAD OVER TO CONTRIBUTING.MD FOR MORE DETAILS ON HOW TO MAKE CHANGES PROPERLY.'',
     ''-->'']"

definition TABLE_HEADER :: "string list" where
  "TABLE_HEADER =
    [''| **notebook** | **colab / kaggle** | **blog / youtube** | **repository / paper** |'',
     ''|:------------:|:-------------------------------------------------:|:---------------------------:|:----------------------:|'']"

definition MODELS_SECTION_HEADER :: string where
  "MODELS_SECTION_HEADER = ''## Model Experiments ({} notebooks)''"

definition APPLIED_SECTION_HEADER :: string where
  "APPLIED_SECTION_HEADER = ''## Applied computer vision in real world scenarios ({} notebooks)''"

definition NOTEBOOK_LINK_PATTERN :: string where
  "NOTEBOOK_LINK_PATTERN = ''[{}]({}/{})''"

definition OPEN_IN_COLAB_BADGE_PATTERN :: string where
  "OPEN_IN_COLAB_BADGE_PATTERN =
    ''[![Colab](https://colab.research.google.com/assets/colab-badge.svg)](https://colab.research.google.com/{}/{})''"

definition OPEN_IN_KAGGLE_BADGE_PATTERN :: string where
  "OPEN_IN_KAGGLE_BADGE_PATTERN =
    ''[![Kaggle](https://kaggle.com/static/images/open-in-kaggle.svg)](https://kaggle.com/kernels/welcome?src={}/{})''"

definition ROBOFLOW_BADGE_PATTERN :: string where
  "ROBOFLOW_BADGE_PATTERN =
    ''[![Roboflow](https://raw.githubusercontent.com/roboflow-ai/notebooks/main/assets/badges/roboflow-blogpost.svg)]({})''"

definition YOUTUBE_BADGE_PATTERN :: string where
  "YOUTUBE_BADGE_PATTERN = ''[![YouTube](https://badges.aleen42.com/src/youtube.svg)]({})''"

definition GITHUB_BADGE_PATTERN :: string where
  "GITHUB_BADGE_PATTERN = ''[![GitHub](https://badges.aleen42.com/src/github.svg)]({})''"

definition ARXIV_BADGE_PATTERN :: string where
  "ARXIV_BADGE_PATTERN =
    ''[![arXiv](https://img.shields.io/badge/arXiv-{}-b31b1b.svg)](https://arxiv.org/abs/{})''"

definition AUTOGENERATED_NOTEBOOKS_TABLE_TOKEN :: string where
  "AUTOGENERATED_NOTEBOOKS_TABLE_TOKEN = ''<!--- AUTOGENERATED-NOTEBOOKS-TABLE -->''"

section \<open>Strings\<close>

text \<open>
  \<^verbatim>\<open>str.isspace\<close> on the code points below 256: the controls 9 to 13 and 28 to 31, the
  space, NEL (133) and the no-break space (160). \<^verbatim>\<open>str.strip()\<close> removes such
  characters from both ends, \<^verbatim>\<open>str.rstrip()\<close> from the right end.
\<close>

definition isspace :: "char \<Rightarrow> bool" where
  "isspace c =
     (let n = (of_char c :: nat)
      in (9 \<le> n \<and> n \<le> 13) \<or> (28 \<le> n \<and> n \<le> 32) \<or> n = 133 \<or> n = 160)"

definition rstrip :: "string \<Rightarrow> string" where
  "rstrip s = rev (dropWhile isspace (rev s))"

definition strip :: "string \<Rightarrow> string" where
  "strip s = dropWhile isspace (rstrip s)"

text \<open>
  \<^verbatim>\<open>str.lower\<close> on the code points below 256: the letters A to Z and the Latin-1
  capitals 192 to 222 (without the multiplication sign 215) move up by 32.
\<close>

definition lower_char :: "char \<Rightarrow> char" where
  "lower_char c =
     (let n = (of_char c :: nat)
      in if (65 \<le> n \<and> n \<le> 90) \<or> (192 \<le> n \<and> n \<le> 222 \<and> n \<noteq> 215)
         then char_of (n + 32) else c)"

definition lower :: "string \<Rightarrow> string" where
  "lower s = map lower_char s"

text \<open>
  \<^verbatim>\<open>s.split(sep)\<close> for a separator of one character: the fields between the
  separators, an empty string giving one empty field. \<open>field\<close> holds the characters
  of the field being read.
\<close>

fun split_from :: "char \<Rightarrow> string \<Rightarrow> string \<Rightarrow> string list" where
  "split_from sep field [] = [field]"
| "split_from sep field (c # cs) =
     (if c = sep then field # split_from sep [] cs else split_from sep (field @ [c]) cs)"

definition split_str :: "string \<Rightarrow> char \<Rightarrow> string list" where
  "split_str s sep = split_from sep [] s"

text \<open>
  \<^verbatim>\<open>template.format(args)\<close> for templates whose replacement fields are all the
  automatically numbered \<^verbatim>\<open>{}\<close>, as every template of the program is: each \<^verbatim>\<open>{}\<close>
  takes the next argument, and running out of arguments raises. Any other brace is
  outside this model of \<^verbatim>\<open>str.format\<close> and is reported as an error too. Arguments
  are strings; an integer argument is passed through \<open>str_nat\<close>, its decimal form.
\<close>

fun py_format :: "string \<Rightarrow> string list \<Rightarrow> error + string" where
  "py_format [] args = Inr []"
| "py_format [c] args = (if c = CHR ''{'' \<or> c = CHR ''}'' then Inl FormatError else Inr [c])"
| "py_format (c # d # rest) args =
     (if c = CHR ''{'' \<and> d = CHR ''}'' then
        (case args of
           [] \<Rightarrow> Inl FormatError
         | arg # args' \<Rightarrow> and_then (py_format rest args') (\<lambda>out. Inr (arg @ out)))
      else if c = CHR ''{'' \<or> c = CHR ''}'' then Inl FormatError
      else and_then (py_format (d # rest) args) (\<lambda>out. Inr (c # out)))"

definition digit_char :: "nat \<Rightarrow> char" where
  "digit_char d = char_of (48 + d)"

fun str_nat :: "nat \<Rightarrow> string" where
  "str_nat n = (if n < 10 then [digit_char n] else str_nat (n div 10) @ [digit_char (n mod 10)])"

declare str_nat.simps [simp del]

section \<open>Record parser\<close>

datatype READMESection = MODELS | APPLIED

fun READMESection_value :: "READMESection \<Rightarrow> string" where
  "READMESection_value MODELS = ''models''"
| "READMESection_value APPLIED = ''applied''"

text \<open>
  \<^verbatim>\<open>READMESection(value)\<close>, the lookup of a member by its value: the members are
  tried in the order of their definition, and a value of no member raises
  \<^verbatim>\<open>ValueError\<close>.
\<close>

definition READMESection_of_value :: "string \<Rightarrow> error + READMESection" where
  "READMESection_of_value v =
     (if v = READMESection_value MODELS then Inr MODELS
      else if v = READMESection_value APPLIED then Inr APPLIED
      else Inl (ValueError v))"

definition READMESection_list :: "string list" where
  "READMESection_list = map READMESection_value [MODELS, APPLIED]"

text \<open>
  \<^verbatim>\<open>READMESection.from_value\<close> lowers the value before the lookup and turns the
  \<^verbatim>\<open>ValueError\<close> into an \<^verbatim>\<open>Exception\<close> whose message holds the printed list of
  the member values and the value given.
\<close>

definition from_value :: "string \<Rightarrow> error + READMESection" where
  "from_value v =
     (case READMESection_of_value (lower v) of
        Inr section \<Rightarrow> Inr section
      | Inl e \<Rightarrow>
          Inl (Exception (''READMESection must be one of ['' @
                 CHR 0x27 # READMESection_list ! 0 @ CHR 0x27 # '', '' @
                 CHR 0x27 # READMESection_list ! 1 @ CHR 0x27 # ''], '' @ v @ '' given.'')))"

record TableEntry =
  display_name :: string
  notebook_name :: string
  roboflow_blogpost_path :: "string option"
  youtube_video_path :: "string option"
  github_repository_path :: "string option"
  arxiv_index :: "string option"
  readme_section :: READMESection

text \<open>
  \<^verbatim>\<open>TableEntry.from_csv_line\<close>. The section is built by the lookup
  \<^verbatim>\<open>READMESection(csv_fields[6])\<close>, which is evaluated while the arguments of the
  constructor are; the six other fields are stored as they are.
\<close>

definition from_csv_line :: "string \<Rightarrow> error + TableEntry" where
  "from_csv_line csv_line =
     (let csv_fields = map strip (split_str csv_line (CHR '','')) in
      if length csv_fields \<noteq> 7
      then Inl (Exception ''Every csv line must contain 7 fields'')
      else and_then (READMESection_of_value (csv_fields ! 6)) (\<lambda>section.
             Inr \<lparr>display_name = csv_fields ! 0,
                  notebook_name = csv_fields ! 1,
                  roboflow_blogpost_path = Some (csv_fields ! 2),
                  youtube_video_path = Some (csv_fields ! 3),
                  github_repository_path = Some (csv_fields ! 4),
                  arxiv_index = Some (csv_fields ! 5),
                  readme_section = section\<rparr>))"

definition parse_csv_lines :: "string list \<Rightarrow> error + TableEntry list" where
  "parse_csv_lines csv_lines = for_each from_csv_line csv_lines"

section \<open>Table formatter\<close>

text \<open>
  The local values of \<^verbatim>\<open>TableEntry.format\<close>, one definition each. An optional field
  is false in a condition when it is \<^verbatim>\<open>None\<close> or the empty string.
\<close>

definition notebook_link :: "TableEntry \<Rightarrow> error + string" where
  "notebook_link self =
     py_format NOTEBOOK_LINK_PATTERN [display_name self, NOTEBOOKS_ROOT_PATH, notebook_name self]"

definition open_in_colab_badge :: "TableEntry \<Rightarrow> error + string" where
  "open_in_colab_badge self =
     py_format OPEN_IN_COLAB_BADGE_PATTERN [NOTEBOOKS_COLAB_ROOT_PATH, notebook_name self]"

definition open_in_kaggle_badge :: "TableEntry \<Rightarrow> error + string" where
  "open_in_kaggle_badge self =
     py_format OPEN_IN_KAGGLE_BADGE_PATTERN [NOTEBOOKS_ROOT_PATH, notebook_name self]"

definition roboflow_badge :: "TableEntry \<Rightarrow> error + string" where
  "roboflow_badge self =
     (case roboflow_blogpost_path self of
        None \<Rightarrow> Inr []
      | Some path \<Rightarrow> if path = [] then Inr [] else py_format ROBOFLOW_BADGE_PATTERN [path])"

definition youtube_badge :: "TableEntry \<Rightarrow> error + string" where
  "youtube_badge self =
     (case youtube_video_path self of
        None \<Rightarrow> Inr []
      | Some path \<Rightarrow> if path = [] then Inr [] else py_format YOUTUBE_BADGE_PATTERN [path])"

definition github_badge :: "TableEntry \<Rightarrow> error + string" where
  "github_badge self =
     (case github_repository_path self of
        None \<Rightarrow> Inr []
      | Some path \<Rightarrow> if path = [] then Inr [] else py_format GITHUB_BADGE_PATTERN [path])"

definition arxiv_badge :: "TableEntry \<Rightarrow> error + string" where
  "arxiv_badge self =
     (case arxiv_index self of
        None \<Rightarrow> Inr []
      | Some index \<Rightarrow>
          if index = [] then Inr [] else py_format ARXIV_BADGE_PATTERN [index, index])"

definition format :: "TableEntry \<Rightarrow> error + string" where
  "format self =
     and_then (notebook_link self) (\<lambda>link.
     and_then (open_in_colab_badge self) (\<lambda>colab.
     and_then (open_in_kaggle_badge self) (\<lambda>kaggle.
     and_then (roboflow_badge self) (\<lambda>roboflow.
     and_then (youtube_badge self) (\<lambda>youtube.
     and_then (github_badge self) (\<lambda>github.
     and_then (arxiv_badge self) (\<lambda>arxiv.
       Inr (''| '' @ link @ '' | '' @ colab @ '' '' @ kaggle @ '' | '' @
            roboflow @ '' '' @ youtube @ '' | '' @ github @ '' '' @ arxiv @ ''|''))))))))"

text \<open>
  The lines of the table, as the main program builds them from the parsed entries:
  its values \<^verbatim>\<open>models_lines\<close>, \<^verbatim>\<open>APPLIED_lines\<close> and \<^verbatim>\<open>table_lines\<close>.
\<close>

definition models_lines :: "TableEntry list \<Rightarrow> error + string list" where
  "models_lines table_entries =
     for_each format [entry \<leftarrow> table_entries. readme_section entry = MODELS]"

definition APPLIED_lines :: "TableEntry list \<Rightarrow> error + string list" where
  "APPLIED_lines table_entries =
     for_each format [entry \<leftarrow> table_entries. readme_section entry = APPLIED]"

definition main_table_lines :: "TableEntry list \<Rightarrow> error + string list" where
  "main_table_lines table_entries =
     and_then (models_lines table_entries) (\<lambda>models.
     and_then (APPLIED_lines table_entries) (\<lambda>applied.
     and_then (py_format MODELS_SECTION_HEADER [str_nat (length models)]) (\<lambda>models_header.
     and_then (py_format APPLIED_SECTION_HEADER [str_nat (length applied)]) (\<lambda>applied_header.
       Inr (WARNING_HEADER @ [models_header] @ TABLE_HEADER @ models @
            [applied_header] @ TABLE_HEADER @ applied)))))"

section \<open>Splicer\<close>

text \<open>
  \<^verbatim>\<open>token in line\<close> is the contiguous-substring test, \<^const>\<open>sublist\<close>.
  The loop of \<^verbatim>\<open>search_lines_with_token\<close> runs over \<^verbatim>\<open>enumerate(lines)\<close>
  and appends the index of each matching line to \<^verbatim>\<open>result\<close>.
\<close>

definition search_lines_with_token :: "string list \<Rightarrow> string \<Rightarrow> nat list" where
  "search_lines_with_token lines token =
     fold (\<lambda>(line_index, line) result.
             if sublist token line then result @ [line_index] else result)
          (enumerate 0 lines) []"

text \<open>
  The slices \<^verbatim>\<open>readme_lines[:i + 1]\<close> and \<^verbatim>\<open>readme_lines[j:]\<close> have
  non-negative bounds, so they are \<^const>\<open>take\<close> and \<^const>\<open>drop\<close>. Unpacking a list
  into two names raises \<^verbatim>\<open>ValueError\<close> unless it has two elements.
\<close>

definition inject_markdown_table_into_readme ::
    "string list \<Rightarrow> string list \<Rightarrow> error + string list" where
  "inject_markdown_table_into_readme readme_lines table_lines =
     (let lines_with_token_indexes =
            search_lines_with_token readme_lines AUTOGENERATED_NOTEBOOKS_TABLE_TOKEN
      in if length lines_with_token_indexes \<noteq> 2
         then Inl (Exception (''Please inject two '' @ AUTOGENERATED_NOTEBOOKS_TABLE_TOKEN @
                              '' tokens to signal start and end of autogenerated table.''))
         else (case lines_with_token_indexes of
                 [table_start_line_index, table_end_line_index] \<Rightarrow>
                   Inr (take (table_start_line_index + 1) readme_lines @ table_lines @
                        drop table_end_line_index readme_lines)
               | _ \<Rightarrow> Inl (ValueError ''unpack'')))"

section \<open>Files and the main program\<close>

text \<open>
  The file system is a map from paths to the text of the files. Reading a file in
  text mode gives its lines: a line ends at a line feed, at a carriage return, or at
  the two together, each read as one line feed, and the text after the last line end
  is a line when it is not empty. \<open>line\<close> holds the characters of the line being read.
\<close>

type_synonym files = "string \<rightharpoonup> string"

function file_lines :: "string \<Rightarrow> string \<Rightarrow> string list" where
  "file_lines line [] = (if line = [] then [] else [line])"
| "file_lines line (c # cs) =
     (if c = CHR 0x0A then (line @ [CHR 0x0A]) # file_lines [] cs
      else if c = CHR 0x0D then
        (line @ [CHR 0x0A]) #
          file_lines [] (case cs of [] \<Rightarrow> [] | d # ds \<Rightarrow> if d = CHR 0x0A then ds else d # ds)
      else file_lines (line @ [c]) cs)"
  by pat_completeness auto
termination
  by (relation "measure (\<lambda>(line, text). length text)") (auto split: list.splits)

definition read_lines_from_file :: "files \<Rightarrow> string \<Rightarrow> error + string list" where
  "read_lines_from_file fs path =
     (case fs path of
        None \<Rightarrow> Inl (FileNotFoundError path)
      | Some text \<Rightarrow> Inr (map rstrip (file_lines [] text)))"

text \<open>
  \<^verbatim>\<open>save_lines_to_file\<close> opens the file for writing, which empties it, and writes
  every line followed by a line feed. The write itself is taken to succeed.
\<close>

definition save_lines_to_file :: "files \<Rightarrow> string \<Rightarrow> string list \<Rightarrow> files" where
  "save_lines_to_file fs path lines = fs(path \<mapsto> concat (map (\<lambda>line. line @ [CHR 0x0A]) lines))"

text \<open>
  The main program, for the two paths of the command line. It returns the error raised,
  if any, and the file system it leaves. The first line of the data file is dropped by
  the slice \<^verbatim>\<open>[1:]\<close>, which is empty on an empty file.
\<close>

definition main :: "string \<Rightarrow> string \<Rightarrow> files \<Rightarrow> (error + unit) \<times> files" where
  "main data_path readme_path fs =
     (case read_lines_from_file fs data_path of
        Inl e \<Rightarrow> (Inl e, fs)
      | Inr data_lines \<Rightarrow>
     (case read_lines_from_file fs readme_path of
        Inl e \<Rightarrow> (Inl e, fs)
      | Inr readme_lines \<Rightarrow>
     (case parse_csv_lines (drop 1 data_lines) of
        Inl e \<Rightarrow> (Inl e, fs)
      | Inr table_entries \<Rightarrow>
     (case main_table_lines table_entries of
        Inl e \<Rightarrow> (Inl e, fs)
      | Inr table \<Rightarrow>
     (case inject_markdown_table_into_readme readme_lines table of
        Inl e \<Rightarrow> (Inl e, fs)
      | Inr new_readme_lines \<Rightarrow>
          (Inr (), save_lines_to_file fs readme_path new_readme_lines))))))"

section \<open>Reading a rendered link back\<close>

text \<open>
  The program has no function that reads a rendered row. To state the round trip of the
  display link, \<open>reparse_notebook_link\<close> matches a string against
  \<^verbatim>\<open>[{display}]({root}/{notebook})\<close> with the root of the program: the display name
  is the text between the leading bracket and the first \<^verbatim>\<open>](\<close>\<open>root\<close>\<^verbatim>\<open>/\<close>,
  the notebook name the text after it, without the closing parenthesis.
  \<open>split_first sep s\<close> cuts \<open>s\<close> at the first occurrence of \<open>sep\<close>.
\<close>

fun split_first :: "string \<Rightarrow> string \<Rightarrow> (string \<times> string) option" where
  "split_first sep [] = (if sep = [] then Some ([], []) else None)"
| "split_first sep (c # cs) =
     (if prefix sep (c # cs) then Some ([], drop (length sep) (c # cs))
      else (case split_first sep cs of
              None \<Rightarrow> None
            | Some (before, after) \<Rightarrow> Some (c # before, after)))"

definition reparse_notebook_link :: "string \<Rightarrow> (string \<times> string) option" where
  "reparse_notebook_link link =
     (case link of
        [] \<Rightarrow> None
      | c # rest \<Rightarrow>
          if c \<noteq> CHR ''['' then None
          else (case split_first ('']('' @ NOTEBOOKS_ROOT_PATH @ ''/'') rest of
                  None \<Rightarrow> None
                | Some (display, tail) \<Rightarrow>
                    if tail \<noteq> [] \<and> last tail = CHR '')''
                    then Some (display, butlast tail) else None))"

text \<open>A line is a marker line when it contains the sentinel token.\<close>

abbreviation has_token :: "string \<Rightarrow> bool" where
  "has_token line \<equiv> sublist AUTOGENERATED_NOTEBOOKS_TABLE_TOKEN line"

section \<open>Properties of the splicer\<close>

lemma search_snoc:
  "search_lines_with_token (xs @ [x]) t =
     search_lines_with_token xs t @ (if sublist t x then [length xs] else [])"
  by (simp add: search_lines_with_token_def enumerate_append_eq)

lemma search_Nil: "search_lines_with_token [] t = []"
  by (simp add: search_lines_with_token_def)

lemma search_eq_filter:
  "search_lines_with_token xs t = [i \<leftarrow> [0..<length xs]. sublist t (xs ! i)]"
proof (induction xs rule: rev_induct)
  case Nil
  show ?case by (simp add: search_Nil)
next
  case (snoc x xs)
  have "[i \<leftarrow> [0..<length xs]. sublist t ((xs @ [x]) ! i)] =
        [i \<leftarrow> [0..<length xs]. sublist t (xs ! i)]"
    by (rule filter_cong) (simp_all add: nth_append)
  with snoc show ?case
    by (simp add: search_snoc)
qed

lemma length_search:
  "length (search_lines_with_token xs t) = length (filter (sublist t) xs)"
  by (induction xs rule: rev_induct) (simp_all add: search_Nil search_snoc)

lemma search_append:
  "search_lines_with_token (xs @ ys) t =
     search_lines_with_token xs t @ map ((+) (length xs)) (search_lines_with_token ys t)"
proof (induction ys rule: rev_induct)
  case Nil
  show ?case by (simp add: search_Nil)
next
  case (snoc y ys)
  have "search_lines_with_token (xs @ ys @ [y]) t =
        search_lines_with_token ((xs @ ys) @ [y]) t"
    by simp
  also have "\<dots> = search_lines_with_token (xs @ ys) t @
                   (if sublist t y then [length (xs @ ys)] else [])"
    by (rule search_snoc)
  finally show ?case
    using snoc by (simp add: search_snoc)
qed

lemma search_none:
  assumes "\<forall>l \<in> set xs. \<not> sublist t l"
  shows "search_lines_with_token xs t = []"
proof -
  have "filter (sublist t) xs = []"
    using assms by (simp add: filter_empty_conv)
  then have "length (search_lines_with_token xs t) = 0"
    by (simp add: length_search)
  then show ?thesis by simp
qed

lemma search_Cons:
  "search_lines_with_token (x # xs) t =
     (if sublist t x then [0] else []) @ map Suc (search_lines_with_token xs t)"
proof -
  have "search_lines_with_token ([x] @ xs) t =
        search_lines_with_token [x] t @ map ((+) (length [x])) (search_lines_with_token xs t)"
    by (rule search_append)
  moreover have "search_lines_with_token [x] t = (if sublist t x then [0] else [])"
    using search_snoc [of "[]" x t] by (simp add: search_Nil)
  ultimately show ?thesis by simp
qed

lemma search_two_markers:
  assumes "\<forall>l \<in> set pre. \<not> sublist t l" "\<forall>l \<in> set mid. \<not> sublist t l"
    "\<forall>l \<in> set post. \<not> sublist t l" "sublist t m1" "sublist t m2"
  shows "search_lines_with_token (pre @ m1 # mid @ m2 # post) t =
           [length pre, length pre + 1 + length mid]"
proof -
  have post: "search_lines_with_token (m2 # post) t = [0]"
    using assms by (simp add: search_Cons search_none)
  have "search_lines_with_token (mid @ m2 # post) t = [length mid]"
    using assms by (simp add: search_append search_none post)
  then have "search_lines_with_token (m1 # mid @ m2 # post) t = [0, Suc (length mid)]"
    using assms by (simp add: search_Cons)
  then show ?thesis
    using assms by (simp add: search_append search_none)
qed

lemma two_markers_split:
  assumes "length (filter P xs) = 2"
  shows "\<exists>pre m1 mid m2 post. xs = pre @ m1 # mid @ m2 # post \<and> P m1 \<and> P m2 \<and>
           (\<forall>l \<in> set pre. \<not> P l) \<and> (\<forall>l \<in> set mid. \<not> P l) \<and> (\<forall>l \<in> set post. \<not> P l)"
proof -
  from assms obtain a b where ab: "filter P xs = [a, b]"
    by (cases "filter P xs" rule: list.exhaust; simp)
       (metis length_0_conv length_Suc_conv)
  then obtain pre rest where 1: "xs = pre @ a # rest" "\<forall>l \<in> set pre. \<not> P l" "P a"
      "[b] = filter P rest"
    unfolding filter_eq_Cons_iff by blast
  then have "filter P rest = b # []"
    by simp
  then obtain mid post where 2: "rest = mid @ b # post" "\<forall>l \<in> set mid. \<not> P l" "P b"
      "[] = filter P post"
    unfolding filter_eq_Cons_iff by blast
  then have "filter P post = []"
    by simp
  then have "\<forall>l \<in> set post. \<not> P l"
    by (simp add: filter_empty_conv)
  with 1 2 show ?thesis by blast
qed

lemma inject_two_markers:
  assumes "\<forall>l \<in> set pre. \<not> has_token l" "\<forall>l \<in> set mid. \<not> has_token l"
    "\<forall>l \<in> set post. \<not> has_token l" "has_token m1" "has_token m2"
  shows "inject_markdown_table_into_readme (pre @ m1 # mid @ m2 # post) table =
           Inr (pre @ [m1] @ table @ m2 # post)"
  using search_two_markers [OF assms]
  by (simp add: inject_markdown_table_into_readme_def)

lemma inject_not_two_markers:
  assumes "length (filter has_token readme_lines) \<noteq> 2"
  shows "inject_markdown_table_into_readme readme_lines table_lines =
           Inl (Exception (''Please inject two '' @ AUTOGENERATED_NOTEBOOKS_TABLE_TOKEN @
                           '' tokens to signal start and end of autogenerated table.''))"
  using assms by (simp add: inject_markdown_table_into_readme_def length_search)

lemma filter_two_markers:
  assumes "\<forall>l \<in> set pre. \<not> P l" "\<forall>l \<in> set mid. \<not> P l" "\<forall>l \<in> set post. \<not> P l" "P m1" "P m2"
  shows "length (filter P (pre @ m1 # mid @ m2 # post)) = 2"
proof -
  have "filter P pre = []" "filter P mid = []" "filter P post = []"
    using assms by (simp_all add: filter_empty_conv)
  then show ?thesis
    using assms by simp
qed

lemma inject_split:
  assumes "length (filter has_token readme_lines) = 2"
  shows "\<exists>pre m1 mid m2 post.
           readme_lines = pre @ m1 # mid @ m2 # post \<and> has_token m1 \<and> has_token m2 \<and>
           (\<forall>l \<in> set (pre @ mid @ post). \<not> has_token l) \<and>
           inject_markdown_table_into_readme readme_lines table_lines =
             Inr (pre @ [m1] @ table_lines @ m2 # post)"
proof -
  from two_markers_split [OF assms] obtain pre m1 mid m2 post where
    d: "readme_lines = pre @ m1 # mid @ m2 # post" "has_token m1" "has_token m2"
       "\<forall>l \<in> set pre. \<not> has_token l" "\<forall>l \<in> set mid. \<not> has_token l"
       "\<forall>l \<in> set post. \<not> has_token l"
    by blast
  have "inject_markdown_table_into_readme (pre @ m1 # mid @ m2 # post) table_lines =
          Inr (pre @ [m1] @ table_lines @ m2 # post)"
    using d by (intro inject_two_markers) simp_all
  moreover have "\<forall>l \<in> set (pre @ mid @ post). \<not> has_token l"
    using d by auto
  ultimately show ?thesis
    using d by blast
qed

text \<open>
  Claim C1. When exactly two lines of the document contain the sentinel token, the
  document is \<open>pre\<close>, the first marker line, \<open>mid\<close>, the second marker line and \<open>post\<close>,
  with no token in \<open>pre\<close>, \<open>mid\<close> and \<open>post\<close>, and the result is \<open>pre\<close>, the first marker
  line, all table lines, the second marker line and \<open>post\<close>: the old region \<open>mid\<close> is
  replaced and every other line is kept as it was.
\<close>

theorem inject_replaces_region:
  assumes "length (filter has_token readme_lines) = 2"
  shows "\<exists>pre m1 mid m2 post.
           readme_lines = pre @ m1 # mid @ m2 # post \<and> has_token m1 \<and> has_token m2 \<and>
           (\<forall>l \<in> set (pre @ mid @ post). \<not> has_token l) \<and>
           inject_markdown_table_into_readme readme_lines table_lines =
             Inr (pre @ [m1] @ table_lines @ m2 # post)"
  using assms by (rule inject_split)

theorem inject_replaces_region_witness:
  "length (filter has_token
     [''# Notebooks'', AUTOGENERATED_NOTEBOOKS_TABLE_TOKEN, ''old row'',
      AUTOGENERATED_NOTEBOOKS_TABLE_TOKEN @ '' end'', ''footer'']) = 2 \<and>
   (\<exists>pre m1 mid m2 post.
      [''# Notebooks'', AUTOGENERATED_NOTEBOOKS_TABLE_TOKEN, ''old row'',
       AUTOGENERATED_NOTEBOOKS_TABLE_TOKEN @ '' end'', ''footer''] = pre @ m1 # mid @ m2 # post \<and>
      has_token m1 \<and> has_token m2 \<and> (\<forall>l \<in> set (pre @ mid @ post). \<not> has_token l) \<and>
      inject_markdown_table_into_readme
        [''# Notebooks'', AUTOGENERATED_NOTEBOOKS_TABLE_TOKEN, ''old row'',
         AUTOGENERATED_NOTEBOOKS_TABLE_TOKEN @ '' end'', ''footer''] [''new row''] =
        Inr (pre @ [m1] @ [''new row''] @ m2 # post))"
proof -
  have h: "length (filter has_token
     [''# Notebooks'', AUTOGENERATED_NOTEBOOKS_TABLE_TOKEN, ''old row'',
      AUTOGENERATED_NOTEBOOKS_TABLE_TOKEN @ '' end'', ''footer'']) = 2"
    by (simp add: AUTOGENERATED_NOTEBOOKS_TABLE_TOKEN_def sublist_Cons_right)
  show ?thesis
    using h inject_replaces_region [OF h, of "[''new row'']"] by blast
qed

text \<open>
  Claim C2. When the number of lines containing the sentinel token is not two, the call
  raises an exception whose message contains the token; when it is two, the call
  returns a document.
\<close>

theorem inject_raises_unless_two_markers:
  "(if length (filter has_token readme_lines) = 2
    then \<exists>spliced. inject_markdown_table_into_readme readme_lines table_lines = Inr spliced
    else \<exists>message. inject_markdown_table_into_readme readme_lines table_lines =
                      Inl (Exception message) \<and>
                    sublist AUTOGENERATED_NOTEBOOKS_TABLE_TOKEN message)"
proof (cases "length (filter has_token readme_lines) = 2")
  case True
  then show ?thesis
    using inject_split [OF True, of table_lines] by auto
next
  case False
  have "sublist AUTOGENERATED_NOTEBOOKS_TABLE_TOKEN
          (''Please inject two '' @ AUTOGENERATED_NOTEBOOKS_TABLE_TOKEN @
           '' tokens to signal start and end of autogenerated table.'')"
    by (rule sublist_appendI)
  with False show ?thesis
    using inject_not_two_markers [OF False, of table_lines] by auto
qed

theorem inject_raises_unless_two_markers_witness:
  "\<exists>message. inject_markdown_table_into_readme [''# Notebooks'', ''no marker here''] [''new row''] =
                Inl (Exception message) \<and>
              sublist AUTOGENERATED_NOTEBOOKS_TABLE_TOKEN message"
proof -
  have "length (filter has_token [''# Notebooks'', ''no marker here'']) \<noteq> 2"
    by (simp add: AUTOGENERATED_NOTEBOOKS_TABLE_TOKEN_def sublist_Cons_right)
  then show ?thesis
    using inject_raises_unless_two_markers
            [of "[''# Notebooks'', ''no marker here'']" "[''new row'']"]
    by simp
qed

text \<open>
  Claim C5. Splicing is idempotent: when the document has exactly two marker lines and
  no table line contains the token, the spliced document again has exactly two marker
  lines, and splicing it once more with the same table lines returns it unchanged.
\<close>

theorem inject_idempotent:
  assumes "length (filter has_token readme_lines) = 2"
    and "\<forall>l \<in> set table_lines. \<not> has_token l"
  shows "\<exists>spliced.
           inject_markdown_table_into_readme readme_lines table_lines = Inr spliced \<and>
           length (filter has_token spliced) = 2 \<and>
           inject_markdown_table_into_readme spliced table_lines = Inr spliced"
proof -
  from inject_split [OF assms(1), of table_lines] obtain pre m1 mid m2 post where
    d: "has_token m1" "has_token m2" "\<forall>l \<in> set (pre @ mid @ post). \<not> has_token l"
       "inject_markdown_table_into_readme readme_lines table_lines =
          Inr (pre @ [m1] @ table_lines @ m2 # post)"
    by blast
  let ?spliced = "pre @ m1 # table_lines @ m2 # post"
  have pre: "\<forall>l \<in> set pre. \<not> has_token l" and post: "\<forall>l \<in> set post. \<not> has_token l"
    using d(3) by auto
  have "length (filter has_token ?spliced) = 2"
    using pre assms(2) post d(1,2) by (rule filter_two_markers)
  moreover have "inject_markdown_table_into_readme ?spliced table_lines =
                   Inr (pre @ [m1] @ table_lines @ m2 # post)"
    using pre assms(2) post d(1,2) by (rule inject_two_markers)
  ultimately show ?thesis
    using d(4) by simp
qed

theorem inject_idempotent_witness:
  "\<exists>spliced.
     inject_markdown_table_into_readme
       [''# Notebooks'', AUTOGENERATED_NOTEBOOKS_TABLE_TOKEN, ''old row'',
        AUTOGENERATED_NOTEBOOKS_TABLE_TOKEN @ '' end'', ''footer''] [''new row'', ''| a |''] =
       Inr spliced \<and>
     length (filter has_token spliced) = 2 \<and>
     inject_markdown_table_into_readme spliced [''new row'', ''| a |''] = Inr spliced"
proof -
  have h: "length (filter has_token
     [''# Notebooks'', AUTOGENERATED_NOTEBOOKS_TABLE_TOKEN, ''old row'',
      AUTOGENERATED_NOTEBOOKS_TABLE_TOKEN @ '' end'', ''footer'']) = 2"
    by (simp add: AUTOGENERATED_NOTEBOOKS_TABLE_TOKEN_def sublist_Cons_right)
  have t: "\<forall>l \<in> set [''new row'', ''| a |'']. \<not> has_token l"
    by (simp add: AUTOGENERATED_NOTEBOOKS_TABLE_TOKEN_def sublist_Cons_right)
  show ?thesis
    by (rule inject_idempotent [OF h t])
qed

text \<open>
  Claim C10. \<open>search_lines_with_token\<close> returns the indexes of the lines that contain the
  token, in strictly increasing order; a line that contains the token twice is one match,
  so a document whose only marker line holds both occurrences of the token is rejected
  by the exactly-two check.
\<close>

theorem search_counts_lines:
  assumes "\<forall>l \<in> set before. \<not> has_token l" and "\<forall>l \<in> set after. \<not> has_token l"
  shows "search_lines_with_token lines token =
           [i \<leftarrow> [0..<length lines]. sublist token (lines ! i)] \<and>
         sorted_wrt (<) (search_lines_with_token lines token) \<and>
         search_lines_with_token
           (before @ [a @ AUTOGENERATED_NOTEBOOKS_TABLE_TOKEN @ b @
                      AUTOGENERATED_NOTEBOOKS_TABLE_TOKEN @ c] @ after)
           AUTOGENERATED_NOTEBOOKS_TABLE_TOKEN = [length before] \<and>
         inject_markdown_table_into_readme
           (before @ [a @ AUTOGENERATED_NOTEBOOKS_TABLE_TOKEN @ b @
                      AUTOGENERATED_NOTEBOOKS_TABLE_TOKEN @ c] @ after) table_lines =
           Inl (Exception (''Please inject two '' @ AUTOGENERATED_NOTEBOOKS_TABLE_TOKEN @
                           '' tokens to signal start and end of autogenerated table.''))"
proof -
  let ?line = "a @ AUTOGENERATED_NOTEBOOKS_TABLE_TOKEN @ b @
               AUTOGENERATED_NOTEBOOKS_TABLE_TOKEN @ c"
  let ?doc = "before @ [?line] @ after"
  have sorted: "sorted_wrt (<) (search_lines_with_token lines token)"
    unfolding search_eq_filter by (rule sorted_wrt_filter) simp
  have line: "has_token ?line"
    by (rule sublist_appendI)
  have idx: "search_lines_with_token ?doc AUTOGENERATED_NOTEBOOKS_TABLE_TOKEN = [length before]"
    using assms line by (simp add: search_append search_Cons search_none)
  then have "length (filter has_token ?doc) \<noteq> 2"
    using length_search [of ?doc AUTOGENERATED_NOTEBOOKS_TABLE_TOKEN] by simp
  then have "inject_markdown_table_into_readme ?doc table_lines =
      Inl (Exception (''Please inject two '' @ AUTOGENERATED_NOTEBOOKS_TABLE_TOKEN @
                      '' tokens to signal start and end of autogenerated table.''))"
    by (rule inject_not_two_markers)
  with sorted idx show ?thesis
    by (simp add: search_eq_filter)
qed

theorem search_counts_lines_witness:
  "search_lines_with_token
     ([''# Notebooks''] @ [''x '' @ AUTOGENERATED_NOTEBOOKS_TABLE_TOKEN @ '' old '' @
                          AUTOGENERATED_NOTEBOOKS_TABLE_TOKEN @ '' y''] @ [''footer''])
     AUTOGENERATED_NOTEBOOKS_TABLE_TOKEN = [1] \<and>
   inject_markdown_table_into_readme
     ([''# Notebooks''] @ [''x '' @ AUTOGENERATED_NOTEBOOKS_TABLE_TOKEN @ '' old '' @
                          AUTOGENERATED_NOTEBOOKS_TABLE_TOKEN @ '' y''] @ [''footer''])
     [''new row''] =
     Inl (Exception (''Please inject two '' @ AUTOGENERATED_NOTEBOOKS_TABLE_TOKEN @
                     '' tokens to signal start and end of autogenerated table.''))"
proof -
  have b: "\<forall>l \<in> set [''# Notebooks'']. \<not> has_token l"
    by (simp add: AUTOGENERATED_NOTEBOOKS_TABLE_TOKEN_def sublist_Cons_right)
  have a: "\<forall>l \<in> set [''footer'']. \<not> has_token l"
    by (simp add: AUTOGENERATED_NOTEBOOKS_TABLE_TOKEN_def sublist_Cons_right)
  show ?thesis
    using search_counts_lines [OF b a, of "[]" "[]" "''x ''" "'' old ''" "'' y''" "[''new row'']"]
    by simp
qed

section \<open>Properties of the formatter\<close>

lemma notebook_link_eq:
  "notebook_link e =
     Inr (''['' @ display_name e @ '']('' @ NOTEBOOKS_ROOT_PATH @ ''/'' @ notebook_name e @ '')'')"
  by (simp add: notebook_link_def NOTEBOOK_LINK_PATTERN_def and_then_def)

lemma open_in_colab_badge_eq:
  "open_in_colab_badge e =
     Inr (''[![Colab](https://colab.research.google.com/assets/colab-badge.svg)](https://colab.research.google.com/'' @
          NOTEBOOKS_COLAB_ROOT_PATH @ ''/'' @ notebook_name e @ '')'')"
  by (simp add: open_in_colab_badge_def OPEN_IN_COLAB_BADGE_PATTERN_def and_then_def)

lemma open_in_kaggle_badge_eq:
  "open_in_kaggle_badge e =
     Inr (''[![Kaggle](https://kaggle.com/static/images/open-in-kaggle.svg)](https://kaggle.com/kernels/welcome?src='' @
          NOTEBOOKS_ROOT_PATH @ ''/'' @ notebook_name e @ '')'')"
  by (simp add: open_in_kaggle_badge_def OPEN_IN_KAGGLE_BADGE_PATTERN_def and_then_def)

lemma roboflow_format:
  "py_format ROBOFLOW_BADGE_PATTERN [p] =
     Inr (''[![Roboflow](https://raw.githubusercontent.com/roboflow-ai/notebooks/main/assets/badges/roboflow-blogpost.svg)]('' @ p @ '')'')"
  by (simp add: ROBOFLOW_BADGE_PATTERN_def and_then_def)

lemma youtube_format:
  "py_format YOUTUBE_BADGE_PATTERN [p] =
     Inr (''[![YouTube](https://badges.aleen42.com/src/youtube.svg)]('' @ p @ '')'')"
  by (simp add: YOUTUBE_BADGE_PATTERN_def and_then_def)

lemma github_format:
  "py_format GITHUB_BADGE_PATTERN [p] =
     Inr (''[![GitHub](https://badges.aleen42.com/src/github.svg)]('' @ p @ '')'')"
  by (simp add: GITHUB_BADGE_PATTERN_def and_then_def)

lemma arxiv_format:
  "py_format ARXIV_BADGE_PATTERN [p, q] =
     Inr (''[![arXiv](https://img.shields.io/badge/arXiv-'' @ p @ ''-b31b1b.svg)](https://arxiv.org/abs/'' @ q @ '')'')"
  by (simp add: ARXIV_BADGE_PATTERN_def and_then_def)

lemma models_header_format:
  "py_format MODELS_SECTION_HEADER [n] = Inr (''## Model Experiments ('' @ n @ '' notebooks)'')"
  by (simp add: MODELS_SECTION_HEADER_def and_then_def)

lemma applied_header_format:
  "py_format APPLIED_SECTION_HEADER [n] =
     Inr (''## Applied computer vision in real world scenarios ('' @ n @ '' notebooks)'')"
  by (simp add: APPLIED_SECTION_HEADER_def and_then_def)

lemma split_from_no_sep:
  "sep \<notin> set a \<Longrightarrow> split_from sep field a = [field @ a]"
  by (induction a arbitrary: field) auto

lemma split_from_sep:
  "sep \<notin> set a \<Longrightarrow> split_from sep field (a @ sep # rest) = (field @ a) # split_from sep [] rest"
  by (induction a arbitrary: field) auto

lemma split_str_cells:
  assumes "sep \<notin> set c1" "sep \<notin> set c2" "sep \<notin> set c3" "sep \<notin> set c4"
  shows "split_str (sep # c1 @ sep # c2 @ sep # c3 @ sep # c4 @ [sep]) sep = [[], c1, c2, c3, c4, []]"
proof -
  have "split_from sep [] ([] @ sep # c1 @ sep # c2 @ sep # c3 @ sep # c4 @ [sep]) =
          [] # split_from sep [] (c1 @ sep # c2 @ sep # c3 @ sep # c4 @ [sep])"
    by (subst split_from_sep) simp_all
  then show ?thesis
    using assms by (simp add: split_str_def split_from_sep)
qed

lemma length_split_from:
  "length (split_from sep field s) = Suc (count_list s sep)"
  by (induction s arbitrary: field) auto

lemma roboflow_badge_eq:
  "roboflow_badge e =
     Inr (case roboflow_blogpost_path e of
            None \<Rightarrow> []
          | Some p \<Rightarrow> if p = [] then [] else
              ''[![Roboflow](https://raw.githubusercontent.com/roboflow-ai/notebooks/main/assets/badges/roboflow-blogpost.svg)]('' @ p @ '')'')"
  by (simp add: roboflow_badge_def roboflow_format split: option.split)

lemma youtube_badge_eq:
  "youtube_badge e =
     Inr (case youtube_video_path e of
            None \<Rightarrow> []
          | Some p \<Rightarrow> if p = [] then [] else
              ''[![YouTube](https://badges.aleen42.com/src/youtube.svg)]('' @ p @ '')'')"
  by (simp add: youtube_badge_def youtube_format split: option.split)

lemma github_badge_eq:
  "github_badge e =
     Inr (case github_repository_path e of
            None \<Rightarrow> []
          | Some p \<Rightarrow> if p = [] then [] else
              ''[![GitHub](https://badges.aleen42.com/src/github.svg)]('' @ p @ '')'')"
  by (simp add: github_badge_def github_format split: option.split)

lemma arxiv_badge_eq:
  "arxiv_badge e =
     Inr (case arxiv_index e of
            None \<Rightarrow> []
          | Some p \<Rightarrow> if p = [] then [] else
              ''[![arXiv](https://img.shields.io/badge/arXiv-'' @ p @
              ''-b31b1b.svg)](https://arxiv.org/abs/'' @ p @ '')'')"
  by (simp add: arxiv_badge_def arxiv_format split: option.split)

lemma format_total: "\<exists>row. format e = Inr row"
  by (simp add: format_def and_then_def notebook_link_eq open_in_colab_badge_eq
      open_in_kaggle_badge_eq roboflow_badge_eq youtube_badge_eq github_badge_eq arxiv_badge_eq)

lemma format_shape:
  assumes "notebook_link e = Inr link" "open_in_colab_badge e = Inr colab"
    "open_in_kaggle_badge e = Inr kaggle" "roboflow_badge e = Inr roboflow"
    "youtube_badge e = Inr youtube" "github_badge e = Inr github" "arxiv_badge e = Inr arxiv"
  shows "format e = Inr (''| '' @ link @ '' | '' @ colab @ '' '' @ kaggle @ '' | '' @
            roboflow @ '' '' @ youtube @ '' | '' @ github @ '' '' @ arxiv @ ''|'')"
  using assms by (simp add: format_def and_then_def)

lemma no_pipe_link:
  assumes "CHR ''|'' \<notin> set (display_name e)" "CHR ''|'' \<notin> set (notebook_name e)"
    "notebook_link e = Inr link"
  shows "CHR ''|'' \<notin> set link"
  using assms by (auto simp: notebook_link_eq NOTEBOOKS_ROOT_PATH_def)

lemma no_pipe_colab:
  assumes "CHR ''|'' \<notin> set (notebook_name e)" "open_in_colab_badge e = Inr colab"
  shows "CHR ''|'' \<notin> set colab"
  using assms by (auto simp: open_in_colab_badge_eq NOTEBOOKS_COLAB_ROOT_PATH_def)

lemma no_pipe_kaggle:
  assumes "CHR ''|'' \<notin> set (notebook_name e)" "open_in_kaggle_badge e = Inr kaggle"
  shows "CHR ''|'' \<notin> set kaggle"
  using assms by (auto simp: open_in_kaggle_badge_eq NOTEBOOKS_ROOT_PATH_def)

lemma no_pipe_roboflow:
  assumes "\<forall>p \<in> set_option (roboflow_blogpost_path e). CHR ''|'' \<notin> set p"
    "roboflow_badge e = Inr roboflow"
  shows "CHR ''|'' \<notin> set roboflow"
  using assms by (auto simp: roboflow_badge_eq split: option.splits if_splits)

lemma no_pipe_youtube:
  assumes "\<forall>p \<in> set_option (youtube_video_path e). CHR ''|'' \<notin> set p"
    "youtube_badge e = Inr youtube"
  shows "CHR ''|'' \<notin> set youtube"
  using assms by (auto simp: youtube_badge_eq split: option.splits if_splits)

lemma no_pipe_github:
  assumes "\<forall>p \<in> set_option (github_repository_path e). CHR ''|'' \<notin> set p"
    "github_badge e = Inr github"
  shows "CHR ''|'' \<notin> set github"
  using assms by (auto simp: github_badge_eq split: option.splits if_splits)

lemma no_pipe_arxiv:
  assumes "\<forall>p \<in> set_option (arxiv_index e). CHR ''|'' \<notin> set p"
    "arxiv_badge e = Inr arxiv"
  shows "CHR ''|'' \<notin> set arxiv"
  using assms by (auto simp: arxiv_badge_eq split: option.splits if_splits)

lemma row_cells:
  assumes "CHR ''|'' \<notin> set link" "CHR ''|'' \<notin> set colab" "CHR ''|'' \<notin> set kaggle"
    "CHR ''|'' \<notin> set roboflow" "CHR ''|'' \<notin> set youtube" "CHR ''|'' \<notin> set github"
    "CHR ''|'' \<notin> set arxiv"
  shows "split_str (''| '' @ link @ '' | '' @ colab @ '' '' @ kaggle @ '' | '' @
            roboflow @ '' '' @ youtube @ '' | '' @ github @ '' '' @ arxiv @ ''|'') (CHR ''|'') =
         [[], '' '' @ link @ '' '', '' '' @ colab @ '' '' @ kaggle @ '' '',
          '' '' @ roboflow @ '' '' @ youtube @ '' '', '' '' @ github @ '' '' @ arxiv, []]"
proof -
  have "''| '' @ link @ '' | '' @ colab @ '' '' @ kaggle @ '' | '' @
            roboflow @ '' '' @ youtube @ '' | '' @ github @ '' '' @ arxiv @ ''|'' =
        CHR ''|'' # ('' '' @ link @ '' '') @ CHR ''|'' # ('' '' @ colab @ '' '' @ kaggle @ '' '') @
        CHR ''|'' # ('' '' @ roboflow @ '' '' @ youtube @ '' '') @
        CHR ''|'' # ('' '' @ github @ '' '' @ arxiv) @ [CHR ''|'']"
    by simp
  moreover have "split_str (CHR ''|'' # ('' '' @ link @ '' '') @ CHR ''|'' # ('' '' @ colab @ '' '' @ kaggle @ '' '') @
        CHR ''|'' # ('' '' @ roboflow @ '' '' @ youtube @ '' '') @
        CHR ''|'' # ('' '' @ github @ '' '' @ arxiv) @ [CHR ''|'']) (CHR ''|'') =
        [[], '' '' @ link @ '' '', '' '' @ colab @ '' '' @ kaggle @ '' '',
          '' '' @ roboflow @ '' '' @ youtube @ '' '', '' '' @ github @ '' '' @ arxiv, []]"
    using assms by (intro split_str_cells) simp_all
  ultimately show ?thesis by simp
qed

text \<open>
  Claim C6, as amended. For an entry whose fields hold no pipe character, \<open>format\<close>
  returns the row \<^verbatim>\<open>| link | colab kaggle | blog youtube | github arxiv|\<close>, and
  splitting the row at its pipes gives exactly the four cells between the leading and
  the trailing pipe. Each of the blog, YouTube, GitHub and arXiv badges is the empty
  string exactly when its field is \<^verbatim>\<open>None\<close> or empty; the Colab and Kaggle badges are
  never empty.
\<close>

theorem format_four_cells:
  assumes "CHR ''|'' \<notin> set (display_name e)" and "CHR ''|'' \<notin> set (notebook_name e)"
    and "\<forall>p \<in> set_option (roboflow_blogpost_path e). CHR ''|'' \<notin> set p"
    and "\<forall>p \<in> set_option (youtube_video_path e). CHR ''|'' \<notin> set p"
    and "\<forall>p \<in> set_option (github_repository_path e). CHR ''|'' \<notin> set p"
    and "\<forall>p \<in> set_option (arxiv_index e). CHR ''|'' \<notin> set p"
  shows "\<exists>link colab kaggle roboflow youtube github arxiv.
           notebook_link e = Inr link \<and> open_in_colab_badge e = Inr colab \<and>
           open_in_kaggle_badge e = Inr kaggle \<and> roboflow_badge e = Inr roboflow \<and>
           youtube_badge e = Inr youtube \<and> github_badge e = Inr github \<and>
           arxiv_badge e = Inr arxiv \<and>
           format e = Inr (''| '' @ link @ '' | '' @ colab @ '' '' @ kaggle @ '' | '' @
                           roboflow @ '' '' @ youtube @ '' | '' @ github @ '' '' @ arxiv @ ''|'') \<and>
           split_str (''| '' @ link @ '' | '' @ colab @ '' '' @ kaggle @ '' | '' @
                      roboflow @ '' '' @ youtube @ '' | '' @ github @ '' '' @ arxiv @ ''|'')
                     (CHR ''|'') =
             [[], '' '' @ link @ '' '', '' '' @ colab @ '' '' @ kaggle @ '' '',
              '' '' @ roboflow @ '' '' @ youtube @ '' '', '' '' @ github @ '' '' @ arxiv, []] \<and>
           colab \<noteq> [] \<and> kaggle \<noteq> [] \<and>
           (roboflow = [] \<longleftrightarrow> roboflow_blogpost_path e \<in> {None, Some []}) \<and>
           (youtube = [] \<longleftrightarrow> youtube_video_path e \<in> {None, Some []}) \<and>
           (github = [] \<longleftrightarrow> github_repository_path e \<in> {None, Some []}) \<and>
           (arxiv = [] \<longleftrightarrow> arxiv_index e \<in> {None, Some []})"
proof -
  obtain link where link: "notebook_link e = Inr link"
    by (simp add: notebook_link_eq)
  obtain colab where colab: "open_in_colab_badge e = Inr colab"
    by (simp add: open_in_colab_badge_eq)
  obtain kaggle where kaggle: "open_in_kaggle_badge e = Inr kaggle"
    by (simp add: open_in_kaggle_badge_eq)
  obtain roboflow where roboflow: "roboflow_badge e = Inr roboflow"
    by (simp add: roboflow_badge_eq)
  obtain youtube where youtube: "youtube_badge e = Inr youtube"
    by (simp add: youtube_badge_eq)
  obtain github where github: "github_badge e = Inr github"
    by (simp add: github_badge_eq)
  obtain arxiv where arxiv: "arxiv_badge e = Inr arxiv"
    by (simp add: arxiv_badge_eq)
  have row: "format e = Inr (''| '' @ link @ '' | '' @ colab @ '' '' @ kaggle @ '' | '' @
               roboflow @ '' '' @ youtube @ '' | '' @ github @ '' '' @ arxiv @ ''|'')"
    using link colab kaggle roboflow youtube github arxiv by (rule format_shape)
  have cells: "split_str (''| '' @ link @ '' | '' @ colab @ '' '' @ kaggle @ '' | '' @
                      roboflow @ '' '' @ youtube @ '' | '' @ github @ '' '' @ arxiv @ ''|'')
                     (CHR ''|'') =
             [[], '' '' @ link @ '' '', '' '' @ colab @ '' '' @ kaggle @ '' '',
              '' '' @ roboflow @ '' '' @ youtube @ '' '', '' '' @ github @ '' '' @ arxiv, []]"
    using no_pipe_link [OF assms(1,2) link] no_pipe_colab [OF assms(2) colab]
      no_pipe_kaggle [OF assms(2) kaggle] no_pipe_roboflow [OF assms(3) roboflow]
      no_pipe_youtube [OF assms(4) youtube] no_pipe_github [OF assms(5) github]
      no_pipe_arxiv [OF assms(6) arxiv]
    by (rule row_cells)
  have present: "colab \<noteq> []" "kaggle \<noteq> []"
    using colab kaggle by (auto simp: open_in_colab_badge_eq open_in_kaggle_badge_eq)
  have r: "roboflow = [] \<longleftrightarrow> roboflow_blogpost_path e \<in> {None, Some []}"
    using roboflow by (auto simp: roboflow_badge_eq split: option.splits if_splits)
  have y: "youtube = [] \<longleftrightarrow> youtube_video_path e \<in> {None, Some []}"
    using youtube by (auto simp: youtube_badge_eq split: option.splits if_splits)
  have g: "github = [] \<longleftrightarrow> github_repository_path e \<in> {None, Some []}"
    using github by (auto simp: github_badge_eq split: option.splits if_splits)
  have a: "arxiv = [] \<longleftrightarrow> arxiv_index e \<in> {None, Some []}"
    using arxiv by (auto simp: arxiv_badge_eq split: option.splits if_splits)
  from link colab kaggle roboflow youtube github arxiv row cells present r y g a
  show ?thesis by blast
qed

theorem format_four_cells_witness:
  "\<exists>link colab kaggle roboflow youtube github arxiv.
     format \<lparr>display_name = ''YOLOv8'', notebook_name = ''train-yolov8.ipynb'',
             roboflow_blogpost_path = Some ''https://blog.roboflow.com/yolov8'',
             youtube_video_path = Some [], github_repository_path = None,
             arxiv_index = Some ''2301.00001'', readme_section = MODELS\<rparr> =
       Inr (''| '' @ link @ '' | '' @ colab @ '' '' @ kaggle @ '' | '' @
            roboflow @ '' '' @ youtube @ '' | '' @ github @ '' '' @ arxiv @ ''|'') \<and>
     split_str (''| '' @ link @ '' | '' @ colab @ '' '' @ kaggle @ '' | '' @
                roboflow @ '' '' @ youtube @ '' | '' @ github @ '' '' @ arxiv @ ''|'')
               (CHR ''|'') =
       [[], '' '' @ link @ '' '', '' '' @ colab @ '' '' @ kaggle @ '' '',
        '' '' @ roboflow @ '' '' @ youtube @ '' '', '' '' @ github @ '' '' @ arxiv, []] \<and>
     roboflow \<noteq> [] \<and> youtube = [] \<and> github = [] \<and> arxiv \<noteq> []"
proof -
  let ?e = "\<lparr>display_name = ''YOLOv8'', notebook_name = ''train-yolov8.ipynb'',
             roboflow_blogpost_path = Some ''https://blog.roboflow.com/yolov8'',
             youtube_video_path = Some [], github_repository_path = None,
             arxiv_index = Some ''2301.00001'', readme_section = MODELS\<rparr>"
  have h1: "CHR ''|'' \<notin> set (display_name ?e)" and h2: "CHR ''|'' \<notin> set (notebook_name ?e)"
    and h3: "\<forall>p \<in> set_option (roboflow_blogpost_path ?e). CHR ''|'' \<notin> set p"
    and h4: "\<forall>p \<in> set_option (youtube_video_path ?e). CHR ''|'' \<notin> set p"
    and h5: "\<forall>p \<in> set_option (github_repository_path ?e). CHR ''|'' \<notin> set p"
    and h6: "\<forall>p \<in> set_option (arxiv_index ?e). CHR ''|'' \<notin> set p"
    by simp_all
  from format_four_cells [OF h1 h2 h3 h4 h5 h6]
  obtain link colab kaggle roboflow youtube github arxiv where
    row: "format ?e = Inr (''| '' @ link @ '' | '' @ colab @ '' '' @ kaggle @ '' | '' @
            roboflow @ '' '' @ youtube @ '' | '' @ github @ '' '' @ arxiv @ ''|'')"
    and cells: "split_str (''| '' @ link @ '' | '' @ colab @ '' '' @ kaggle @ '' | '' @
                roboflow @ '' '' @ youtube @ '' | '' @ github @ '' '' @ arxiv @ ''|'')
               (CHR ''|'') =
       [[], '' '' @ link @ '' '', '' '' @ colab @ '' '' @ kaggle @ '' '',
        '' '' @ roboflow @ '' '' @ youtube @ '' '', '' '' @ github @ '' '' @ arxiv, []]"
    and r: "roboflow = [] \<longleftrightarrow> roboflow_blogpost_path ?e \<in> {None, Some []}"
    and y: "youtube = [] \<longleftrightarrow> youtube_video_path ?e \<in> {None, Some []}"
    and g: "github = [] \<longleftrightarrow> github_repository_path ?e \<in> {None, Some []}"
    and a: "arxiv = [] \<longleftrightarrow> arxiv_index ?e \<in> {None, Some []}"
    by blast
  have "roboflow \<noteq> []" "youtube = []" "github = []" "arxiv \<noteq> []"
    using r y g a by simp_all
  with row cells show ?thesis
    by blast
qed

text \<open>
  The claim as stated, for every entry, fails: a pipe in the display name is copied
  into the row, which then has five cells.
\<close>

theorem format_four_cells_counterexample:
  "format \<lparr>display_name = ''a|b'', notebook_name = ''nb.ipynb'',
           roboflow_blogpost_path = Some [], youtube_video_path = Some [],
           github_repository_path = Some [], arxiv_index = Some [],
           readme_section = MODELS\<rparr> =
     Inr ''| [a|b](https://github.com/roboflow-ai/notebooks/blob/main/notebooks/nb.ipynb) | [![Colab](https://colab.research.google.com/assets/colab-badge.svg)](https://colab.research.google.com/github/roboflow-ai/notebooks/blob/main/notebooks/nb.ipynb) [![Kaggle](https://kaggle.com/static/images/open-in-kaggle.svg)](https://kaggle.com/kernels/welcome?src=https://github.com/roboflow-ai/notebooks/blob/main/notebooks/nb.ipynb) |   |  |'' \<and>
   split_str ''| [a|b](https://github.com/roboflow-ai/notebooks/blob/main/notebooks/nb.ipynb) | [![Colab](https://colab.research.google.com/assets/colab-badge.svg)](https://colab.research.google.com/github/roboflow-ai/notebooks/blob/main/notebooks/nb.ipynb) [![Kaggle](https://kaggle.com/static/images/open-in-kaggle.svg)](https://kaggle.com/kernels/welcome?src=https://github.com/roboflow-ai/notebooks/blob/main/notebooks/nb.ipynb) |   |  |'' (CHR ''|'') =
     [[], '' [a'', ''b](https://github.com/roboflow-ai/notebooks/blob/main/notebooks/nb.ipynb) '',
      '' [![Colab](https://colab.research.google.com/assets/colab-badge.svg)](https://colab.research.google.com/github/roboflow-ai/notebooks/blob/main/notebooks/nb.ipynb) [![Kaggle](https://kaggle.com/static/images/open-in-kaggle.svg)](https://kaggle.com/kernels/welcome?src=https://github.com/roboflow-ai/notebooks/blob/main/notebooks/nb.ipynb) '',
      ''   '', ''  '', []]"
  by code_simp

section \<open>Properties of the record parser\<close>

lemma READMESection_of_value_cases:
  "READMESection_of_value v =
     (if v = ''models'' then Inr MODELS else if v = ''applied'' then Inr APPLIED
      else Inl (ValueError v))"
  by (simp add: READMESection_of_value_def)

lemma from_csv_line_succeeds_iff:
  "(\<exists>e. from_csv_line csv_line = Inr e) \<longleftrightarrow>
     length (split_str csv_line (CHR '','')) = 7 \<and>
     strip (split_str csv_line (CHR '','') ! 6) \<in> {''models'', ''applied''}"
  by (auto simp: from_csv_line_def Let_def and_then_def READMESection_of_value_cases)

text \<open>
  Claim C3. The claim does not hold of the code: \<open>from_csv_line\<close> looks the section tag
  up as it is written, without lowering it, so the tags \<^verbatim>\<open>MODELS\<close> and \<^verbatim>\<open>Applied\<close>
  are rejected with the \<^verbatim>\<open>ValueError\<close> of the lookup. \<open>from_value\<close>, which lowers the
  tag and reports the valid set, accepts both, and is not called by the parser.
\<close>

theorem from_csv_line_section_not_lowered:
  "from_csv_line ''YOLOv8, train-yolov8.ipynb, , , , , MODELS'' = Inl (ValueError ''MODELS'') \<and>
   from_csv_line ''SAM, how-to-sam.ipynb, , , , , Applied'' = Inl (ValueError ''Applied'') \<and>
   from_value ''MODELS'' = Inr MODELS \<and> from_value ''Applied'' = Inr APPLIED"
  by code_simp

text \<open>
  Claim C4. \<open>from_csv_line\<close> raises the exception about the seven fields exactly when
  the split at the commas does not give seven fields. When it gives seven and the
  lookup of the stripped seventh field finds a section, the entry holds the stripped
  fields in the order display name, notebook name, blog path, video path, repository
  path, arXiv index, section.
\<close>

theorem from_csv_line_fields:
  "(from_csv_line csv_line = Inl (Exception ''Every csv line must contain 7 fields'') \<longleftrightarrow>
      length (split_str csv_line (CHR '','')) \<noteq> 7) \<and>
   (length (split_str csv_line (CHR '','')) = 7 \<and>
    READMESection_of_value (strip (split_str csv_line (CHR '','') ! 6)) = Inr section \<longrightarrow>
      from_csv_line csv_line =
        Inr \<lparr>display_name = strip (split_str csv_line (CHR '','') ! 0),
             notebook_name = strip (split_str csv_line (CHR '','') ! 1),
             roboflow_blogpost_path = Some (strip (split_str csv_line (CHR '','') ! 2)),
             youtube_video_path = Some (strip (split_str csv_line (CHR '','') ! 3)),
             github_repository_path = Some (strip (split_str csv_line (CHR '','') ! 4)),
             arxiv_index = Some (strip (split_str csv_line (CHR '','') ! 5)),
             readme_section = section\<rparr>)"
  by (auto simp: from_csv_line_def Let_def and_then_def READMESection_of_value_cases)

theorem from_csv_line_fields_witness:
  "from_csv_line '' YOLOv8 ,train-yolov8.ipynb, blog/yolov8,, https://github.com/x/y ,2301.00001, models  '' =
     Inr \<lparr>display_name = ''YOLOv8'', notebook_name = ''train-yolov8.ipynb'',
          roboflow_blogpost_path = Some ''blog/yolov8'', youtube_video_path = Some [],
          github_repository_path = Some ''https://github.com/x/y'',
          arxiv_index = Some ''2301.00001'', readme_section = MODELS\<rparr> \<and>
   from_csv_line ''YOLOv8,train-yolov8.ipynb,,,,models'' =
     Inl (Exception ''Every csv line must contain 7 fields'')"
proof -
  let ?l = "'' YOLOv8 ,train-yolov8.ipynb, blog/yolov8,, https://github.com/x/y ,2301.00001, models  ''"
  let ?fs = "split_str ?l (CHR '','')"
  have n: "length ?fs = 7"
    by code_simp
  have s: "READMESection_of_value (strip (?fs ! 6)) = Inr MODELS"
    by code_simp
  have f: "strip (?fs ! 0) = ''YOLOv8''" "strip (?fs ! 1) = ''train-yolov8.ipynb''"
    "strip (?fs ! 2) = ''blog/yolov8''" "strip (?fs ! 3) = []"
    "strip (?fs ! 4) = ''https://github.com/x/y''" "strip (?fs ! 5) = ''2301.00001''"
    by code_simp+
  have six: "length (split_str ''YOLOv8,train-yolov8.ipynb,,,,models'' (CHR '','')) \<noteq> 7"
    by code_simp
  show ?thesis
    using from_csv_line_fields [of ?l MODELS] n s f
      from_csv_line_fields [of "''YOLOv8,train-yolov8.ipynb,,,,models''" MODELS] six
    by simp
qed

section \<open>Properties of the table and of the main program\<close>

lemma for_each_format:
  "\<exists>rows. for_each format es = Inr rows \<and> map format es = map Inr rows"
proof (induction es)
  case Nil
  show ?case by simp
next
  case (Cons e es)
  then obtain rows where rows: "for_each format es = Inr rows" "map format es = map Inr rows"
    by blast
  obtain row where row: "format e = Inr row"
    using format_total by blast
  from rows row have "for_each format (e # es) = Inr (row # rows)"
    by (simp add: and_then_def)
  moreover from rows row have "map format (e # es) = map Inr (row # rows)"
    by simp
  ultimately show ?case by blast
qed

lemma main_table_lines_eq:
  "\<exists>models applied.
     map format [e \<leftarrow> table_entries. readme_section e = MODELS] = map Inr models \<and>
     map format [e \<leftarrow> table_entries. readme_section e = APPLIED] = map Inr applied \<and>
     main_table_lines table_entries =
       Inr (WARNING_HEADER @
            [''## Model Experiments ('' @
             str_nat (length [e \<leftarrow> table_entries. readme_section e = MODELS]) @
             '' notebooks)''] @
            TABLE_HEADER @ models @
            [''## Applied computer vision in real world scenarios ('' @
             str_nat (length [e \<leftarrow> table_entries. readme_section e = APPLIED]) @
             '' notebooks)''] @
            TABLE_HEADER @ applied)"
proof -
  obtain models where m: "for_each format [e \<leftarrow> table_entries. readme_section e = MODELS] = Inr models"
    "map format [e \<leftarrow> table_entries. readme_section e = MODELS] = map Inr models"
    using for_each_format by blast
  obtain applied where a: "for_each format [e \<leftarrow> table_entries. readme_section e = APPLIED] = Inr applied"
    "map format [e \<leftarrow> table_entries. readme_section e = APPLIED] = map Inr applied"
    using for_each_format by blast
  have lm: "length models = length [e \<leftarrow> table_entries. readme_section e = MODELS]"
    using arg_cong [OF m(2), of length] by simp
  have la: "length applied = length [e \<leftarrow> table_entries. readme_section e = APPLIED]"
    using arg_cong [OF a(2), of length] by simp
  have "main_table_lines table_entries =
       Inr (WARNING_HEADER @
            [''## Model Experiments ('' @ str_nat (length models) @ '' notebooks)''] @
            TABLE_HEADER @ models @
            [''## Applied computer vision in real world scenarios ('' @
             str_nat (length applied) @ '' notebooks)''] @
            TABLE_HEADER @ applied)"
    using m(1) a(1)
    by (simp add: main_table_lines_def models_lines_def APPLIED_lines_def and_then_def
        models_header_format applied_header_format)
  then have "main_table_lines table_entries =
       Inr (WARNING_HEADER @
            [''## Model Experiments ('' @
             str_nat (length [e \<leftarrow> table_entries. readme_section e = MODELS]) @
             '' notebooks)''] @
            TABLE_HEADER @ models @
            [''## Applied computer vision in real world scenarios ('' @
             str_nat (length [e \<leftarrow> table_entries. readme_section e = APPLIED]) @
             '' notebooks)''] @
            TABLE_HEADER @ applied)"
    unfolding lm la .
  with m(2) a(2) show ?thesis
    by blast
qed

text \<open>
  Claim C7. For every list of entries the table is: the four lines of the warning
  banner, the header of the models section with the number of models entries, the two
  lines of the table header, the rows of the models entries in their order, the header
  of the applied section with the number of applied entries, the table header again,
  and the rows of the applied entries in their order.
\<close>

theorem main_table_lines_layout:
  "\<exists>models applied.
     map format [e \<leftarrow> table_entries. readme_section e = MODELS] = map Inr models \<and>
     map format [e \<leftarrow> table_entries. readme_section e = APPLIED] = map Inr applied \<and>
     main_table_lines table_entries =
       Inr (WARNING_HEADER @
            [''## Model Experiments ('' @
             str_nat (length [e \<leftarrow> table_entries. readme_section e = MODELS]) @
             '' notebooks)''] @
            TABLE_HEADER @ models @
            [''## Applied computer vision in real world scenarios ('' @
             str_nat (length [e \<leftarrow> table_entries. readme_section e = APPLIED]) @
             '' notebooks)''] @
            TABLE_HEADER @ applied) \<and>
     length WARNING_HEADER = 4 \<and> length TABLE_HEADER = 2"
  using main_table_lines_eq [of table_entries]
  by (simp add: WARNING_HEADER_def TABLE_HEADER_def)

theorem main_table_lines_layout_witness:
  "\<exists>models applied.
     length models = 3 \<and> length applied = 2 \<and>
     main_table_lines
       (map (\<lambda>(name, section).
               \<lparr>display_name = name, notebook_name = name @ ''.ipynb'',
                roboflow_blogpost_path = Some [], youtube_video_path = Some [],
                github_repository_path = Some [], arxiv_index = Some [],
                readme_section = section\<rparr>)
          [(''a'', MODELS), (''b'', APPLIED), (''c'', MODELS), (''d'', MODELS), (''e'', APPLIED)]) =
       Inr (WARNING_HEADER @ [''## Model Experiments (3 notebooks)''] @ TABLE_HEADER @ models @
            [''## Applied computer vision in real world scenarios (2 notebooks)''] @
            TABLE_HEADER @ applied)"
proof -
  let ?es = "map (\<lambda>(name, section).
               \<lparr>display_name = name, notebook_name = name @ ''.ipynb'',
                roboflow_blogpost_path = Some [], youtube_video_path = Some [],
                github_repository_path = Some [], arxiv_index = Some [],
                readme_section = section\<rparr>)
          [(''a'', MODELS), (''b'', APPLIED), (''c'', MODELS), (''d'', MODELS), (''e'', APPLIED)]"
  have m: "length [e \<leftarrow> ?es. readme_section e = MODELS] = 3"
    by simp
  have a: "length [e \<leftarrow> ?es. readme_section e = APPLIED] = 2"
    by simp
  have three: "str_nat 3 = ''3''" and two: "str_nat 2 = ''2''"
    by code_simp+
  have "\<exists>models applied.
     map format [e \<leftarrow> ?es. readme_section e = MODELS] = map Inr models \<and>
     map format [e \<leftarrow> ?es. readme_section e = APPLIED] = map Inr applied \<and>
     main_table_lines ?es =
       Inr (WARNING_HEADER @
            [''## Model Experiments ('' @
             str_nat (length [e \<leftarrow> ?es. readme_section e = MODELS]) @
             '' notebooks)''] @
            TABLE_HEADER @ models @
            [''## Applied computer vision in real world scenarios ('' @
             str_nat (length [e \<leftarrow> ?es. readme_section e = APPLIED]) @
             '' notebooks)''] @
            TABLE_HEADER @ applied) \<and>
     length WARNING_HEADER = 4 \<and> length TABLE_HEADER = 2"
    by (rule main_table_lines_layout)
  then show ?thesis
  proof (elim exE conjE)
    fix models applied
    assume r1: "map format [e \<leftarrow> ?es. readme_section e = MODELS] = map Inr models"
      and r2: "map format [e \<leftarrow> ?es. readme_section e = APPLIED] = map Inr applied"
      and r3: "main_table_lines ?es =
       Inr (WARNING_HEADER @
            [''## Model Experiments ('' @
             str_nat (length [e \<leftarrow> ?es. readme_section e = MODELS]) @
             '' notebooks)''] @
            TABLE_HEADER @ models @
            [''## Applied computer vision in real world scenarios ('' @
             str_nat (length [e \<leftarrow> ?es. readme_section e = APPLIED]) @
             '' notebooks)''] @
            TABLE_HEADER @ applied)"
    have lm: "length models = 3"
      using arg_cong [where f = length, OF r1] unfolding length_map m by simp
    have la: "length applied = 2"
      using arg_cong [where f = length, OF r2] unfolding length_map a by simp
    have "main_table_lines ?es =
       Inr (WARNING_HEADER @ [''## Model Experiments (3 notebooks)''] @ TABLE_HEADER @ models @
            [''## Applied computer vision in real world scenarios (2 notebooks)''] @
            TABLE_HEADER @ applied)"
      using r3 unfolding m a three two by simp
    with lm la show ?thesis
      by (intro exI [of _ models] exI [of _ applied] conjI)
  qed
qed

lemma main_table_lines_total: "\<exists>table. main_table_lines table_entries = Inr table"
  using main_table_lines_eq [of table_entries] by blast

text \<open>
  Claim C8. A run that ends in an error leaves every file as it was. When both files
  are read, a failure of the parser ends the run with the parser's error, and a
  document without exactly two marker lines ends it with the marker error; in both
  cases the file system is unchanged, the only write being the last step of the run.
\<close>

theorem main_error_leaves_files:
  "(fst (main data_path readme_path fs) = Inl e \<longrightarrow> snd (main data_path readme_path fs) = fs) \<and>
   (read_lines_from_file fs data_path = Inr data_lines \<and>
    read_lines_from_file fs readme_path = Inr readme_lines \<and>
    parse_csv_lines (drop 1 data_lines) = Inl parse_error \<longrightarrow>
      main data_path readme_path fs = (Inl parse_error, fs)) \<and>
   (read_lines_from_file fs data_path = Inr data_lines \<and>
    read_lines_from_file fs readme_path = Inr readme_lines \<and>
    parse_csv_lines (drop 1 data_lines) = Inr table_entries \<and>
    length (filter has_token readme_lines) \<noteq> 2 \<longrightarrow>
      main data_path readme_path fs =
        (Inl (Exception (''Please inject two '' @ AUTOGENERATED_NOTEBOOKS_TABLE_TOKEN @
                         '' tokens to signal start and end of autogenerated table.'')), fs))"
proof (intro conjI impI)
  assume "fst (main data_path readme_path fs) = Inl e"
  then show "snd (main data_path readme_path fs) = fs"
    by (auto simp: main_def split: sum.splits)
next
  assume "read_lines_from_file fs data_path = Inr data_lines \<and>
    read_lines_from_file fs readme_path = Inr readme_lines \<and>
    parse_csv_lines (drop 1 data_lines) = Inl parse_error"
  then show "main data_path readme_path fs = (Inl parse_error, fs)"
    by (simp add: main_def)
next
  assume a: "read_lines_from_file fs data_path = Inr data_lines \<and>
    read_lines_from_file fs readme_path = Inr readme_lines \<and>
    parse_csv_lines (drop 1 data_lines) = Inr table_entries \<and>
    length (filter has_token readme_lines) \<noteq> 2"
  obtain table where t: "main_table_lines table_entries = Inr table"
    using main_table_lines_total by blast
  from a have "inject_markdown_table_into_readme readme_lines table =
      Inl (Exception (''Please inject two '' @ AUTOGENERATED_NOTEBOOKS_TABLE_TOKEN @
                      '' tokens to signal start and end of autogenerated table.''))"
    by (intro inject_not_two_markers) simp
  with a t show "main data_path readme_path fs =
        (Inl (Exception (''Please inject two '' @ AUTOGENERATED_NOTEBOOKS_TABLE_TOKEN @
                         '' tokens to signal start and end of autogenerated table.'')), fs)"
    by (simp add: main_def)
qed

theorem main_error_leaves_files_witness:
  "main ''data.csv'' ''README.md''
     [''data.csv'' \<mapsto> ''display_name,notebook_name,blog,video,repo,arxiv,section'' @ [CHR 0x0A] @
                       ''YOLOv8,train-yolov8.ipynb,,,,models'' @ [CHR 0x0A],
      ''README.md'' \<mapsto> ''# Notebooks'' @ [CHR 0x0A] @
                       AUTOGENERATED_NOTEBOOKS_TABLE_TOKEN @ [CHR 0x0A] @
                       AUTOGENERATED_NOTEBOOKS_TABLE_TOKEN @ [CHR 0x0A]] =
     (Inl (Exception ''Every csv line must contain 7 fields''),
      [''data.csv'' \<mapsto> ''display_name,notebook_name,blog,video,repo,arxiv,section'' @ [CHR 0x0A] @
                       ''YOLOv8,train-yolov8.ipynb,,,,models'' @ [CHR 0x0A],
       ''README.md'' \<mapsto> ''# Notebooks'' @ [CHR 0x0A] @
                       AUTOGENERATED_NOTEBOOKS_TABLE_TOKEN @ [CHR 0x0A] @
                       AUTOGENERATED_NOTEBOOKS_TABLE_TOKEN @ [CHR 0x0A]]) \<and>
   main ''data.csv'' ''README.md''
     [''data.csv'' \<mapsto> ''display_name,notebook_name,blog,video,repo,arxiv,section'' @ [CHR 0x0A] @
                       ''YOLOv8,train-yolov8.ipynb,,,,,models'' @ [CHR 0x0A],
      ''README.md'' \<mapsto> ''# Notebooks'' @ [CHR 0x0A] @ ''no marker here'' @ [CHR 0x0A]] =
     (Inl (Exception (''Please inject two '' @ AUTOGENERATED_NOTEBOOKS_TABLE_TOKEN @
                      '' tokens to signal start and end of autogenerated table.'')),
      [''data.csv'' \<mapsto> ''display_name,notebook_name,blog,video,repo,arxiv,section'' @ [CHR 0x0A] @
                       ''YOLOv8,train-yolov8.ipynb,,,,,models'' @ [CHR 0x0A],
       ''README.md'' \<mapsto> ''# Notebooks'' @ [CHR 0x0A] @ ''no marker here'' @ [CHR 0x0A]])"
proof -
  let ?fs1 = "[''data.csv'' \<mapsto> ''display_name,notebook_name,blog,video,repo,arxiv,section'' @ [CHR 0x0A] @
                       ''YOLOv8,train-yolov8.ipynb,,,,models'' @ [CHR 0x0A],
      ''README.md'' \<mapsto> ''# Notebooks'' @ [CHR 0x0A] @
                       AUTOGENERATED_NOTEBOOKS_TABLE_TOKEN @ [CHR 0x0A] @
                       AUTOGENERATED_NOTEBOOKS_TABLE_TOKEN @ [CHR 0x0A]]"
  let ?fs2 = "[''data.csv'' \<mapsto> ''display_name,notebook_name,blog,video,repo,arxiv,section'' @ [CHR 0x0A] @
                       ''YOLOv8,train-yolov8.ipynb,,,,,models'' @ [CHR 0x0A],
      ''README.md'' \<mapsto> ''# Notebooks'' @ [CHR 0x0A] @ ''no marker here'' @ [CHR 0x0A]]"
  let ?entry = "\<lparr>display_name = ''YOLOv8'', notebook_name = ''train-yolov8.ipynb'',
      roboflow_blogpost_path = Some [], youtube_video_path = Some [],
      github_repository_path = Some [], arxiv_index = Some [], readme_section = MODELS\<rparr>"
  have d1: "read_lines_from_file ?fs1 ''data.csv'' =
      Inr [''display_name,notebook_name,blog,video,repo,arxiv,section'',
           ''YOLOv8,train-yolov8.ipynb,,,,models'']"
    by code_simp
  have r1: "read_lines_from_file ?fs1 ''README.md'' =
      Inr [''# Notebooks'', AUTOGENERATED_NOTEBOOKS_TABLE_TOKEN,
           AUTOGENERATED_NOTEBOOKS_TABLE_TOKEN]"
    by code_simp
  have p1: "parse_csv_lines (drop 1 [''display_name,notebook_name,blog,video,repo,arxiv,section'',
           ''YOLOv8,train-yolov8.ipynb,,,,models'']) =
      Inl (Exception ''Every csv line must contain 7 fields'')"
    by code_simp
  have d2: "read_lines_from_file ?fs2 ''data.csv'' =
      Inr [''display_name,notebook_name,blog,video,repo,arxiv,section'',
           ''YOLOv8,train-yolov8.ipynb,,,,,models'']"
    by code_simp
  have r2: "read_lines_from_file ?fs2 ''README.md'' = Inr [''# Notebooks'', ''no marker here'']"
    by code_simp
  have p2: "parse_csv_lines (drop 1 [''display_name,notebook_name,blog,video,repo,arxiv,section'',
           ''YOLOv8,train-yolov8.ipynb,,,,,models'']) = Inr [?entry]"
    by code_simp
  have m2: "length (filter has_token [''# Notebooks'', ''no marker here'']) \<noteq> 2"
    by code_simp
  note t1 = main_error_leaves_files
    [where fs = ?fs1 and data_path = "''data.csv''" and readme_path = "''README.md''"
       and data_lines = "[''display_name,notebook_name,blog,video,repo,arxiv,section'',
           ''YOLOv8,train-yolov8.ipynb,,,,models'']"
       and readme_lines = "[''# Notebooks'', AUTOGENERATED_NOTEBOOKS_TABLE_TOKEN,
           AUTOGENERATED_NOTEBOOKS_TABLE_TOKEN]"
       and parse_error = "Exception ''Every csv line must contain 7 fields''"]
  note t2 = main_error_leaves_files
    [where fs = ?fs2 and data_path = "''data.csv''" and readme_path = "''README.md''"
       and data_lines = "[''display_name,notebook_name,blog,video,repo,arxiv,section'',
           ''YOLOv8,train-yolov8.ipynb,,,,,models'']"
       and readme_lines = "[''# Notebooks'', ''no marker here'']"
       and table_entries = "[?entry]"]
  have "main ''data.csv'' ''README.md'' ?fs1 =
          (Inl (Exception ''Every csv line must contain 7 fields''), ?fs1)"
    using t1 [THEN conjunct2, THEN conjunct1] d1 r1 p1 by blast
  moreover have "main ''data.csv'' ''README.md'' ?fs2 =
     (Inl (Exception (''Please inject two '' @ AUTOGENERATED_NOTEBOOKS_TABLE_TOKEN @
                      '' tokens to signal start and end of autogenerated table.'')), ?fs2)"
    using t2 [THEN conjunct2, THEN conjunct2] d2 r2 p2 m2 by blast
  ultimately show ?thesis
    by (rule conjI)
qed

section \<open>The round trip of the display link\<close>

lemma prefix_before_char:
  assumes "x \<notin> set s" and "prefix s (d @ x # r)"
  shows "prefix s d"
proof -
  from assms(2) have "prefix s d \<or> (\<exists>us. s = d @ us \<and> prefix us (x # r))"
    by (simp add: prefix_append)
  then show ?thesis
  proof
    assume "prefix s d"
    then show ?thesis .
  next
    assume "\<exists>us. s = d @ us \<and> prefix us (x # r)"
    then obtain us where us: "s = d @ us" "prefix us (x # r)"
      by blast
    from us(1) assms(1) have "x \<notin> set us"
      by simp
    with us(2) have "us = []"
      by (cases us) auto
    with us(1) show ?thesis
      by simp
  qed
qed

lemma split_first_found:
  assumes "x \<notin> set sep'" and "\<not> sublist (x # sep') d"
  shows "split_first (x # sep') (d @ (x # sep') @ t) = Some (d, t)"
  using assms(2)
proof (induction d)
  case Nil
  show ?case by simp
next
  case (Cons c d)
  from Cons.prems have np: "\<not> prefix (x # sep') (c # d)" and ns: "\<not> sublist (x # sep') d"
    by (simp_all add: sublist_Cons_right)
  have "\<not> prefix (x # sep') (c # d @ (x # sep') @ t)"
  proof
    assume "prefix (x # sep') (c # d @ (x # sep') @ t)"
    then have "x = c \<and> prefix sep' (d @ (x # sep') @ t)"
      unfolding Cons_prefix_Cons .
    then have xc: "x = c" and p: "prefix sep' (d @ (x # sep') @ t)"
      by blast+
    from p have "prefix sep' (d @ x # (sep' @ t))"
      by simp
    with assms(1) have "prefix sep' d"
      by (rule prefix_before_char)
    with xc np show False
      by simp
  qed
  with Cons.IH [OF ns] show ?case
    by simp
qed

lemma reparse_rendered_link:
  assumes "\<not> sublist ('']('' @ NOTEBOOKS_ROOT_PATH @ ''/'') d"
  shows "reparse_notebook_link (''['' @ d @ '']('' @ NOTEBOOKS_ROOT_PATH @ ''/'' @ n @ '')'') =
           Some (d, n)"
proof -
  have "CHR '']'' \<notin> set (''('' @ NOTEBOOKS_ROOT_PATH @ ''/'')"
    by (simp add: NOTEBOOKS_ROOT_PATH_def)
  moreover have "\<not> sublist (CHR '']'' # (''('' @ NOTEBOOKS_ROOT_PATH @ ''/'')) d"
    using assms by simp
  ultimately have "split_first (CHR '']'' # (''('' @ NOTEBOOKS_ROOT_PATH @ ''/''))
                     (d @ (CHR '']'' # (''('' @ NOTEBOOKS_ROOT_PATH @ ''/'')) @ (n @ '')'')) =
                   Some (d, n @ '')'')"
    by (rule split_first_found)
  then have "split_first ('']('' @ NOTEBOOKS_ROOT_PATH @ ''/'')
               (d @ '']('' @ NOTEBOOKS_ROOT_PATH @ ''/'' @ n @ '')'') = Some (d, n @ '')'')"
    by simp
  then show ?thesis
    by (simp add: reparse_notebook_link_def)
qed

lemma from_csv_line_names:
  assumes "from_csv_line csv_line = Inr e"
  shows "display_name e = strip (split_str csv_line (CHR '','') ! 0) \<and>
         notebook_name e = strip (split_str csv_line (CHR '','') ! 1)"
  using assms
  by (auto simp: from_csv_line_def Let_def and_then_def READMESection_of_value_cases
      split: if_splits)

text \<open>
  Claim C9, as amended. For every line that \<open>from_csv_line\<close> accepts and whose stripped
  display name does not contain \<^verbatim>\<open>](\<close>, the root path and \<^verbatim>\<open>/\<close> in a row, the
  row that \<open>format\<close> renders starts with the display link, and reading the link back
  gives the stripped first and second field of the line.
\<close>

theorem link_round_trip:
  assumes "from_csv_line csv_line = Inr e"
    and "\<not> sublist ('']('' @ NOTEBOOKS_ROOT_PATH @ ''/'') (display_name e)"
  shows "\<exists>link rest.
           notebook_link e = Inr link \<and>
           format e = Inr (''| '' @ link @ '' | '' @ rest) \<and>
           reparse_notebook_link link =
             Some (strip (split_str csv_line (CHR '','') ! 0),
                   strip (split_str csv_line (CHR '','') ! 1))"
proof -
  let ?link = "''['' @ display_name e @ '']('' @ NOTEBOOKS_ROOT_PATH @ ''/'' @
               notebook_name e @ '')''"
  have link: "notebook_link e = Inr ?link"
    by (rule notebook_link_eq)
  obtain colab kaggle roboflow youtube github arxiv where
    "open_in_colab_badge e = Inr colab" "open_in_kaggle_badge e = Inr kaggle"
    "roboflow_badge e = Inr roboflow" "youtube_badge e = Inr youtube"
    "github_badge e = Inr github" "arxiv_badge e = Inr arxiv"
    by (simp add: open_in_colab_badge_eq open_in_kaggle_badge_eq roboflow_badge_eq
        youtube_badge_eq github_badge_eq arxiv_badge_eq)
  with link have "format e = Inr (''| '' @ ?link @ '' | '' @ colab @ '' '' @ kaggle @ '' | '' @
            roboflow @ '' '' @ youtube @ '' | '' @ github @ '' '' @ arxiv @ ''|'')"
    by (rule format_shape)
  then have row: "\<exists>rest. format e = Inr (''| '' @ ?link @ '' | '' @ rest)"
    by blast
  have "reparse_notebook_link ?link = Some (display_name e, notebook_name e)"
    using assms(2) by (rule reparse_rendered_link)
  then have "reparse_notebook_link ?link =
             Some (strip (split_str csv_line (CHR '','') ! 0),
                   strip (split_str csv_line (CHR '','') ! 1))"
    using from_csv_line_names [OF assms(1)] by simp
  with link row show ?thesis
    by blast
qed

theorem link_round_trip_witness:
  "\<exists>link rest.
     and_then (from_csv_line '' YOLOv8 train , train-yolov8.ipynb ,,,,,models'') format =
       Inr (''| '' @ link @ '' | '' @ rest) \<and>
     reparse_notebook_link link = Some (''YOLOv8 train'', ''train-yolov8.ipynb'')"
proof -
  let ?l = "'' YOLOv8 train , train-yolov8.ipynb ,,,,,models''"
  let ?e = "\<lparr>display_name = ''YOLOv8 train'', notebook_name = ''train-yolov8.ipynb'',
      roboflow_blogpost_path = Some [], youtube_video_path = Some [],
      github_repository_path = Some [], arxiv_index = Some [], readme_section = MODELS\<rparr>"
  have p: "from_csv_line ?l = Inr ?e"
    by code_simp
  have n: "\<not> sublist ('']('' @ NOTEBOOKS_ROOT_PATH @ ''/'') (display_name ?e)"
    by code_simp
  have f: "strip (split_str ?l (CHR '','') ! 0) = ''YOLOv8 train''"
    "strip (split_str ?l (CHR '','') ! 1) = ''train-yolov8.ipynb''"
    by code_simp+
  from link_round_trip [OF p n] obtain link rest where
    "format ?e = Inr (''| '' @ link @ '' | '' @ rest)"
    "reparse_notebook_link link =
       Some (strip (split_str ?l (CHR '','') ! 0), strip (split_str ?l (CHR '','') ! 1))"
    by blast
  then have "and_then (from_csv_line ?l) format = Inr (''| '' @ link @ '' | '' @ rest) \<and>
     reparse_notebook_link link = Some (''YOLOv8 train'', ''train-yolov8.ipynb'')"
    unfolding f p by (simp add: and_then_def)
  then show ?thesis
    by blast
qed

text \<open>
  The claim as stated, for every valid line, fails: two valid lines with different
  display names and notebook names render the same display link, so no reading of the
  link gives both back.
\<close>

theorem link_round_trip_counterexample:
  "and_then (from_csv_line ''x](https://github.com/roboflow-ai/notebooks/blob/main/notebooks/y,z,,,,,models'')
     notebook_link =
     Inr ''[x](https://github.com/roboflow-ai/notebooks/blob/main/notebooks/y](https://github.com/roboflow-ai/notebooks/blob/main/notebooks/z)'' \<and>
   and_then (from_csv_line ''x,y](https://github.com/roboflow-ai/notebooks/blob/main/notebooks/z,,,,,models'')
     notebook_link =
     Inr ''[x](https://github.com/roboflow-ai/notebooks/blob/main/notebooks/y](https://github.com/roboflow-ai/notebooks/blob/main/notebooks/z)'' \<and>
   map_sum id display_name
     (from_csv_line ''x](https://github.com/roboflow-ai/notebooks/blob/main/notebooks/y,z,,,,,models'') =
     Inr ''x](https://github.com/roboflow-ai/notebooks/blob/main/notebooks/y'' \<and>
   map_sum id display_name
     (from_csv_line ''x,y](https://github.com/roboflow-ai/notebooks/blob/main/notebooks/z,,,,,models'') =
     Inr ''x'' \<and>
   reparse_notebook_link
     ''[x](https://github.com/roboflow-ai/notebooks/blob/main/notebooks/y](https://github.com/roboflow-ai/notebooks/blob/main/notebooks/z)'' =
     Some (''x'', ''y](https://github.com/roboflow-ai/notebooks/blob/main/notebooks/z'')"
  by code_simp

end
